theory Spec2Isabelle
  imports Main
begin

section \<open>JSON values as Python sees them\<close>

text \<open>
  The generator of \<^verbatim>\<open>src/python/generate_sql.py\<close> walks a tree that \<^verbatim>\<open>json.load\<close>
  produced: \<^verbatim>\<open>None\<close>, \<^verbatim>\<open>bool\<close>, \<^verbatim>\<open>int\<close>, \<^verbatim>\<open>float\<close>, \<^verbatim>\<open>str\<close>, \<^verbatim>\<open>list\<close> and
  \<^verbatim>\<open>dict\<close> with string keys. The program looks at a float only through \<^verbatim>\<open>str()\<close>
  and through its truth value, so a float is carried as that text and that flag. A dict
  is an association list in insertion order; a lookup finds the first entry of a key.
  Characters are 8-bit (code points below 256).
\<close>

datatype json =
    JNull
  | JBool bool
  | JInt int
  | JFloat string bool
  | JStr string
  | JList "json list"
  | JDict "(string \<times> json) list"

text \<open>The exceptions the generator can let escape.\<close>

datatype error = KeyError | IndexError | TypeError | AttributeError | ValueError

subsection \<open>Python built-ins the generator relies on\<close>

text \<open>\<^verbatim>\<open>sep.join(parts)\<close>\<close>

fun join :: "string \<Rightarrow> string list \<Rightarrow> string" where
  "join sep [] = []"
| "join sep [x] = x"
| "join sep (x # y # ys) = x @ sep @ join sep (y # ys)"

text \<open>\<^verbatim>\<open>s.replace(c, r)\<close> for a pattern \<open>c\<close> of one character.\<close>

definition replace_char :: "char \<Rightarrow> string \<Rightarrow> string \<Rightarrow> string" where
  "replace_char c r s = concat (map (\<lambda>x. if x = c then r else [x]) s)"

text \<open>\<^verbatim>\<open>s[1:-1]\<close>\<close>

definition strip_ends :: "string \<Rightarrow> string" where
  "strip_ends s = butlast (tl s)"

text \<open>\<^verbatim>\<open>str(i)\<close> of an integer: decimal digits, a minus sign when negative. The
  interpreter refuses to convert an integer of more than 4300 digits (a configurable
  limit) in either direction, so \<^verbatim>\<open>json.load\<close> never yields one; the limit is not
  modelled.\<close>

fun nat_digits :: "nat \<Rightarrow> string" where
  "nat_digits n =
     (if n < 10 then [''0123456789'' ! n]
      else nat_digits (n div 10) @ [''0123456789'' ! (n mod 10)])"

definition str_int :: "int \<Rightarrow> string" where
  "str_int i = (if i < 0 then CHR ''-'' # nat_digits (nat (- i)) else nat_digits (nat i))"

text \<open>
  \<^verbatim>\<open>repr(s)\<close> of a string: single quotes unless the text has a single and no double
  quote; the quote and the backslash are escaped, control and unprintable characters are
  written \<^verbatim>\<open>\t\<close>, \<^verbatim>\<open>\n\<close>, \<^verbatim>\<open>\r\<close> or \<^verbatim>\<open>\xhh\<close>.
\<close>

definition hex2 :: "nat \<Rightarrow> string" where
  "hex2 n = [''0123456789abcdef'' ! (n div 16 mod 16), ''0123456789abcdef'' ! (n mod 16)]"

definition repr_quote :: "string \<Rightarrow> char" where
  "repr_quote s = (if CHR 0x27 \<in> set s \<and> CHR 0x22 \<notin> set s then CHR 0x22 else CHR 0x27)"

definition repr_char :: "char \<Rightarrow> char \<Rightarrow> string" where
  "repr_char q c =
     (let n = (of_char c :: nat) in
      if c = q \<or> c = CHR 0x5C then [CHR 0x5C, c]
      else if n = 9 then [CHR 0x5C, CHR ''t'']
      else if n = 10 then [CHR 0x5C, CHR ''n'']
      else if n = 13 then [CHR 0x5C, CHR ''r'']
      else if n < 32 \<or> n = 127 then [CHR 0x5C, CHR ''x''] @ hex2 n
      else if n < 127 then [c]
      else if n \<le> 160 \<or> n = 173 then [CHR 0x5C, CHR ''x''] @ hex2 n
      else [c])"

definition repr_str :: "string \<Rightarrow> string" where
  "repr_str s = (let q = repr_quote s in q # concat (map (repr_char q) s) @ [q])"

text \<open>\<^verbatim>\<open>repr(v)\<close>, which \<^verbatim>\<open>str\<close> of a list or dict applies to the members.\<close>

primrec py_repr :: "json \<Rightarrow> string" where
  "py_repr JNull = ''None''"
| "py_repr (JBool b) = (if b then ''True'' else ''False'')"
| "py_repr (JInt i) = str_int i"
| "py_repr (JFloat s nz) = s"
| "py_repr (JStr s) = repr_str s"
| "py_repr (JList xs) = ''['' @ join '', '' (map py_repr xs) @ '']''"
| "py_repr (JDict kvs) =
     ''{'' @ join '', '' (map (\<lambda>(k, r). repr_str k @ '': '' @ r) (map (map_prod id py_repr) kvs))
       @ ''}''"

text \<open>\<^verbatim>\<open>str(v)\<close>, also what an f-string field \<^verbatim>\<open>{v}\<close> inserts.\<close>

definition py_str :: "json \<Rightarrow> string" where
  "py_str v = (case v of JStr s \<Rightarrow> s | _ \<Rightarrow> py_repr v)"

text \<open>The truth value \<^verbatim>\<open>if v:\<close> tests.\<close>

fun truthy :: "json \<Rightarrow> bool" where
  "truthy JNull = False"
| "truthy (JBool b) = b"
| "truthy (JInt i) = (i \<noteq> 0)"
| "truthy (JFloat s nz) = nz"
| "truthy (JStr s) = (s \<noteq> [])"
| "truthy (JList xs) = (xs \<noteq> [])"
| "truthy (JDict kvs) = (kvs \<noteq> [])"

text \<open>\<^verbatim>\<open>isinstance(v, str)\<close>, \<^verbatim>\<open>isinstance(v, (int, float))\<close> and \<^verbatim>\<open>isinstance(v, bool)\<close>.
  In Python \<^verbatim>\<open>bool\<close> is a subclass of \<^verbatim>\<open>int\<close>, so a boolean is an instance of
  \<^verbatim>\<open>(int, float)\<close> too.\<close>

fun isinstance_str :: "json \<Rightarrow> bool" where
  "isinstance_str (JStr s) = True"
| "isinstance_str v = False"

fun isinstance_int_float :: "json \<Rightarrow> bool" where
  "isinstance_int_float (JBool b) = True"
| "isinstance_int_float (JInt i) = True"
| "isinstance_int_float (JFloat s nz) = True"
| "isinstance_int_float v = False"

fun isinstance_bool :: "json \<Rightarrow> bool" where
  "isinstance_bool (JBool b) = True"
| "isinstance_bool v = False"

text \<open>\<^verbatim>\<open>d[key]\<close> with a string key: only a dict accepts it (TypeError otherwise), and a
  missing key is a KeyError.\<close>

fun subscript :: "json \<Rightarrow> string \<Rightarrow> error + json" where
  "subscript (JDict kvs) k = (case map_of kvs k of None \<Rightarrow> Inl KeyError | Some v \<Rightarrow> Inr v)"
| "subscript v k = Inl TypeError"

text \<open>\<^verbatim>\<open>d.get(key, default)\<close>: only a dict has the method.\<close>

fun dict_get :: "json \<Rightarrow> string \<Rightarrow> json \<Rightarrow> error + json" where
  "dict_get (JDict kvs) k d = (case map_of kvs k of None \<Rightarrow> Inr d | Some v \<Rightarrow> Inr v)"
| "dict_get v k d = Inl AttributeError"

text \<open>\<^verbatim>\<open>v[0] if isinstance(v, list) else v\<close>\<close>

fun first_if_list :: "json \<Rightarrow> error + json" where
  "first_if_list (JList []) = Inl IndexError"
| "first_if_list (JList (x # xs)) = Inr x"
| "first_if_list v = Inr v"

text \<open>Sequencing of calls that may raise: the first exception ends the computation.\<close>

definition and_then :: "error + 'a \<Rightarrow> ('a \<Rightarrow> error + 'b) \<Rightarrow> error + 'b" where
  "and_then m f = (case m of Inl e \<Rightarrow> Inl e | Inr x \<Rightarrow> f x)"

fun collect :: "(error + 'a) list \<Rightarrow> error + 'a list" where
  "collect [] = Inr []"
| "collect (m # ms) =
     (case m of Inl e \<Rightarrow> Inl e
      | Inr x \<Rightarrow> (case collect ms of Inl e \<Rightarrow> Inl e | Inr xs \<Rightarrow> Inr (x # xs)))"

section \<open>The SQL generator\<close>

subsection \<open>\<^verbatim>\<open>SQLGenerator.OPERATOR_MAPPING\<close>\<close>

definition OPERATOR_MAPPING :: "(string \<times> string) list" where
  "OPERATOR_MAPPING =
    [(''equal'', ''=''),
     (''not_equal'', ''!=''),
     (''less'', ''<''),
     (''less_or_equal'', ''<=''),
     (''greater'', ''>''),
     (''greater_or_equal'', ''>=''),
     (''like'', ''LIKE''),
     (''not_like'', ''NOT LIKE''),
     (''starts_with'', ''LIKE''),
     (''ends_with'', ''LIKE''),
     (''between'', ''BETWEEN''),
     (''not_between'', ''NOT BETWEEN''),
     (''is_null'', ''IS NULL''),
     (''is_not_null'', ''IS NOT NULL''),
     (''is_empty'', [CHR ''='', CHR '' '', CHR 0x27, CHR 0x27]),
     (''is_not_empty'', [CHR ''!'', CHR ''='', CHR '' '', CHR 0x27, CHR 0x27]),
     (''in'', ''IN''),
     (''not_in'', ''NOT IN''),
     (''AND'', ''AND''),
     (''OR'', ''OR'')]"

text \<open>\<^verbatim>\<open>self.OPERATOR_MAPPING[operator]\<close>: a list or dict is unhashable (TypeError), any
  other value that is not a key is a KeyError.\<close>

fun operator_sql :: "json \<Rightarrow> error + string" where
  "operator_sql (JStr s) =
     (case map_of OPERATOR_MAPPING s of None \<Rightarrow> Inl KeyError | Some sql \<Rightarrow> Inr sql)"
| "operator_sql (JList xs) = Inl TypeError"
| "operator_sql (JDict kvs) = Inl TypeError"
| "operator_sql v = Inl KeyError"

subsection \<open>\<^verbatim>\<open>SQLGenerator.format_value\<close>\<close>

definition quoted :: "string \<Rightarrow> string" where
  "quoted s = CHR 0x27 # s @ [CHR 0x27]"

definition escape_quotes :: "string \<Rightarrow> string" where
  "escape_quotes s = replace_char (CHR 0x27) [CHR 0x27, CHR 0x27] s"

text \<open>The scalar part of \<^verbatim>\<open>format_value\<close> (lines 72 to 92): the effective type, then the
  \<^verbatim>\<open>if\<close>/\<^verbatim>\<open>elif\<close> chain in the source's order. (Line 92 has a backslash inside an
  f-string expression, which Python accepts from version 3.12 on; the model is the
  program as such an interpreter runs it.)\<close>

definition format_scalar :: "json \<Rightarrow> json \<Rightarrow> string" where
  "format_scalar v value_type =
     (let effective_type = (case value_type of JList [t] \<Rightarrow> t | _ \<Rightarrow> value_type) in
      if effective_type = JStr ''string'' \<or> isinstance_str v then
        quoted (escape_quotes (py_str v))
      else if effective_type = JStr ''number'' \<or> isinstance_int_float v then
        py_str v
      else if effective_type = JStr ''boolean'' \<or> isinstance_bool v then
        (if truthy v then ''TRUE'' else ''FALSE'')
      else if effective_type = JStr ''date'' \<or> effective_type = JStr ''datetime'' then
        ''DATE '' @ quoted (py_str v)
      else if effective_type = JStr ''time'' then
        quoted (py_str v)
      else
        quoted (escape_quotes (py_str v)))"

text \<open>\<^verbatim>\<open>format_value(value, value_type)\<close>; a call without the second argument passes
  \<^verbatim>\<open>None\<close>.\<close>

fun format_value :: "json \<Rightarrow> json \<Rightarrow> error + string" where
  "format_value JNull value_type = Inr ''NULL''"
| "format_value (JList [x]) value_type =
     (case value_type of
        JList ts \<Rightarrow> (case ts of [] \<Rightarrow> Inl IndexError | t # _ \<Rightarrow> format_value x t)
      | _ \<Rightarrow> format_value x value_type)"
| "format_value (JList xs) value_type =
     (case collect (map (\<lambda>v. format_value v JNull) xs) of
        Inl e \<Rightarrow> Inl e
      | Inr parts \<Rightarrow> Inr (''('' @ join '', '' parts @ '')''))"
| "format_value v value_type = Inr (format_scalar v value_type)"

subsection \<open>\<^verbatim>\<open>SQLGenerator.process_rule\<close>\<close>

text \<open>\<^verbatim>\<open>operator in ("a", "b")\<close>: equality with one of the two strings.\<close>

definition op_in :: "json \<Rightarrow> string \<Rightarrow> string \<Rightarrow> bool" where
  "op_in operator a b = (operator = JStr a \<or> operator = JStr b)"

text \<open>\<^verbatim>\<open>isinstance(value, list) and len(value) >= 2\<close>\<close>

fun list_of_two :: "json \<Rightarrow> bool" where
  "list_of_two (JList (x # y # zs)) = True"
| "list_of_two v = False"

fun item :: "json \<Rightarrow> nat \<Rightarrow> json" where
  "item (JList xs) i = xs ! i"
| "item v i = v"

text \<open>The f-string \<^verbatim>\<open>f"{field} {self.OPERATOR_MAPPING[operator]} {rest}"\<close>; the lookup
  of the operator is the only part that can raise, and it runs after \<open>rest\<close> was
  computed.\<close>

definition render :: "json \<Rightarrow> json \<Rightarrow> string \<Rightarrow> error + string" where
  "render field operator rest =
     and_then (operator_sql operator)
       (\<lambda>sql. Inr (py_str field @ '' '' @ sql @ '' '' @ rest))"

definition process_rule :: "json \<Rightarrow> error + string" where
  "process_rule rule =
     and_then (subscript rule ''properties'') (\<lambda>props.
     and_then (subscript props ''operator'') (\<lambda>operator.
     and_then (subscript props ''field'') (\<lambda>field.
       if op_in operator ''is_null'' ''is_not_null'' then
         and_then (operator_sql operator) (\<lambda>sql. Inr (py_str field @ '' '' @ sql))
       else if op_in operator ''is_empty'' ''is_not_empty'' then
         and_then (operator_sql operator) (\<lambda>sql. Inr (py_str field @ '' '' @ sql))
       else
         and_then (subscript props ''value'') (\<lambda>val.
         and_then (dict_get props ''valueType'' JNull) (\<lambda>value_type.
           if op_in operator ''between'' ''not_between'' \<and> list_of_two val then
             and_then (first_if_list value_type) (\<lambda>t0.
             and_then (format_value (item val 0) t0) (\<lambda>low_val.
             and_then (first_if_list value_type) (\<lambda>t1.
             and_then (format_value (item val 1) t1) (\<lambda>high_val.
               render field operator (low_val @ '' AND '' @ high_val)))))
           else if op_in operator ''in'' ''not_in'' then
             and_then (format_value val value_type) (\<lambda>formatted_values.
               render field operator formatted_values)
           else if operator = JStr ''starts_with'' then
             and_then (first_if_list val) (\<lambda>v0.
             and_then (first_if_list value_type) (\<lambda>t0.
             and_then (format_value v0 t0) (\<lambda>formatted_value.
               Inr (py_str field @ '' LIKE '' @ quoted (strip_ends formatted_value @ ''%'')))))
           else if operator = JStr ''ends_with'' then
             and_then (first_if_list val) (\<lambda>v0.
             and_then (first_if_list value_type) (\<lambda>t0.
             and_then (format_value v0 t0) (\<lambda>formatted_value.
               Inr (py_str field @ '' LIKE '' @ quoted (''%'' @ strip_ends formatted_value)))))
           else
             and_then (first_if_list val) (\<lambda>v0.
             and_then (first_if_list value_type) (\<lambda>t0.
             and_then (format_value v0 t0) (\<lambda>formatted_value.
               render field operator formatted_value))))))))"

subsection \<open>\<^verbatim>\<open>SQLGenerator.process_group\<close>\<close>

text \<open>Lines 190 to 201: join the conditions, parenthesise more than one, negate.\<close>

definition finish_group :: "json \<Rightarrow> json \<Rightarrow> string list \<Rightarrow> string" where
  "finish_group conjunction negate conditions =
     (let joined_conditions = join ('' '' @ py_str conjunction @ '' '') conditions;
          joined_conditions =
            (if length conditions > 1 then ''('' @ joined_conditions @ '')''
             else joined_conditions)
      in if truthy negate then ''NOT '' @ joined_conditions else joined_conditions)"

text \<open>
  \<open>process_children\<close> is the \<^verbatim>\<open>for child in children\<close> loop over a list, with the
  list \<^verbatim>\<open>conditions\<close> it appends to. A truthy \<^verbatim>\<open>children1\<close> that is not a list either
  cannot be iterated (a number, \<^verbatim>\<open>True\<close>) or yields strings (the keys of a dict, the
  characters of a string), on which \<^verbatim>\<open>child["type"]\<close> is a TypeError.
\<close>

function process_group :: "json \<Rightarrow> error + string"
  and process_children :: "json list \<Rightarrow> string list \<Rightarrow> error + string list" where
  "process_group node =
     (case dict_get node ''properties'' (JDict []) of
        Inl e \<Rightarrow> Inl e
      | Inr props \<Rightarrow>
     (case dict_get props ''conjunction'' (JStr ''AND'') of
        Inl e \<Rightarrow> Inl e
      | Inr conjunction \<Rightarrow>
     (case dict_get props ''not'' (JBool False) of
        Inl e \<Rightarrow> Inl e
      | Inr negate \<Rightarrow>
     (case dict_get node ''children1'' (JList []) of
        Inl e \<Rightarrow> Inl e
      | Inr children \<Rightarrow>
          if \<not> truthy children then Inr ''TRUE''
          else (case children of
                  JList cs \<Rightarrow>
                    (case process_children cs [] of
                       Inl e \<Rightarrow> Inl e
                     | Inr conditions \<Rightarrow> Inr (finish_group conjunction negate conditions))
                | _ \<Rightarrow> Inl TypeError)))))"
| "process_children [] conditions = Inr conditions"
| "process_children (child # rest) conditions =
     (case subscript child ''type'' of
        Inl e \<Rightarrow> Inl e
      | Inr t \<Rightarrow>
          if t = JStr ''rule'' then
            (case process_rule child of
               Inl e \<Rightarrow> Inl e
             | Inr s \<Rightarrow> process_children rest (conditions @ [s]))
          else if t = JStr ''group'' then
            (case process_group child of
               Inl e \<Rightarrow> Inl e
             | Inr s \<Rightarrow> process_children rest (conditions @ [s]))
          else process_children rest conditions)"
  by pat_completeness auto

text \<open>Every recursive call goes to a strictly smaller part of the tree.\<close>

lemma size_map_of: "map_of kvs k = Some v \<Longrightarrow> size v < size (JDict kvs)"
  by (induction kvs) (auto split: if_splits)

termination process_group
proof (relation "measure (\<lambda>x. case x of Inl g \<Rightarrow> size g | Inr (cs, acc) \<Rightarrow> size_list size cs)",
    goal_cases)
  case 1
  show ?case by simp
next
  case (2 node props conjunction negate children cs)
  then show ?case
    by (cases node) (auto split: option.splits dest: size_map_of)
qed auto

text \<open>The equation of \<open>process_group\<close> is unfolded by hand.\<close>

declare process_group.simps [simp del]

subsection \<open>\<^verbatim>\<open>SQLGenerator.generate_sql\<close>\<close>

text \<open>The generator object: \<^verbatim>\<open>generate_sql\<close> resets the parameter list and counter
  and then dispatches on the node type.\<close>

record sql_generator =
  use_params :: bool
  params :: "json list"
  param_index :: int

definition generate_sql :: "sql_generator \<Rightarrow> json \<Rightarrow> (error + string) \<times> sql_generator" where
  "generate_sql self query_tree =
     (let self = self\<lparr>params := [], param_index := 0\<rparr>;
          result =
            (case subscript query_tree ''type'' of
               Inl e \<Rightarrow> Inl e
             | Inr t \<Rightarrow>
                 if t = JStr ''group'' then process_group query_tree
                 else (case subscript query_tree ''type'' of
                         Inl e \<Rightarrow> Inl e
                       | Inr t \<Rightarrow>
                           if t = JStr ''rule'' then process_rule query_tree
                           else Inl ValueError))
      in (result, self))"

section \<open>Notions the properties are stated with\<close>

text \<open>
  Reading a SQL string literal back, as the specification words it: strip the outer
  quotes and collapse each doubled quote. A quote that stands alone inside the literal
  makes the text no literal at all.
\<close>

fun collapse_quotes :: "string \<Rightarrow> string option" where
  "collapse_quotes [] = Some []"
| "collapse_quotes [c] = (if c = CHR 0x27 then None else Some [c])"
| "collapse_quotes (c # d # cs) =
     (if c = CHR 0x27 then
        (if d = CHR 0x27 then map_option ((#) c) (collapse_quotes cs) else None)
      else map_option ((#) c) (collapse_quotes (d # cs)))"

definition sql_unquote :: "string \<Rightarrow> string option" where
  "sql_unquote lit =
     (if 2 \<le> length lit \<and> hd lit = CHR 0x27 \<and> last lit = CHR 0x27
      then collapse_quotes (strip_ends lit) else None)"

text \<open>The scalars of the data model: null, string, number and boolean.\<close>

fun scalar :: "json \<Rightarrow> bool" where
  "scalar (JList xs) = False"
| "scalar (JDict kvs) = False"
| "scalar v = True"

text \<open>
  One turn of the loop over the children, as the specification's third step words it:
  a rule goes to the rule compiler, a group to the group compiler, a child of any other
  type produces no entry. \<open>present\<close> keeps the entries that were produced.
\<close>

definition compile_child :: "json \<Rightarrow> error + string option" where
  "compile_child child =
     and_then (subscript child ''type'') (\<lambda>t.
       if t = JStr ''rule'' then and_then (process_rule child) (\<lambda>s. Inr (Some s))
       else if t = JStr ''group'' then and_then (process_group child) (\<lambda>s. Inr (Some s))
       else Inr None)"

fun present :: "'a option list \<Rightarrow> 'a list" where
  "present [] = []"
| "present (None # os) = present os"
| "present (Some x # os) = x # present os"

section \<open>Properties of the value formatter\<close>

lemma escape_quotes_Nil: "escape_quotes [] = []"
  by (simp add: escape_quotes_def replace_char_def)

lemma escape_quotes_Cons:
  "escape_quotes (c # s) =
     (if c = CHR 0x27 then [CHR 0x27, CHR 0x27] else [c]) @ escape_quotes s"
  by (simp add: escape_quotes_def replace_char_def)

lemma collapse_quotes_other:
  "c \<noteq> CHR 0x27 \<Longrightarrow> collapse_quotes (c # cs) = map_option ((#) c) (collapse_quotes cs)"
  by (cases cs) simp_all

lemma collapse_escape: "collapse_quotes (escape_quotes s) = Some s"
  by (induction s) (simp_all add: escape_quotes_Cons escape_quotes_Nil collapse_quotes_other)

lemma count_escape: "count_list (escape_quotes s) (CHR 0x27) = 2 * count_list s (CHR 0x27)"
  by (induction s) (simp_all add: escape_quotes_Cons escape_quotes_Nil)

lemma strip_ends_quoted: "strip_ends (quoted s) = s"
  by (simp add: strip_ends_def quoted_def butlast_append)

lemma format_value_str: "format_value (JStr s) value_type = Inr (quoted (escape_quotes s))"
  by (simp add: format_scalar_def py_str_def Let_def)

text \<open>
  C1. A native boolean with no declared type should come out as \<^verbatim>\<open>TRUE\<close> or
  \<^verbatim>\<open>FALSE\<close>. It does not: \<^verbatim>\<open>isinstance(value, (int, float))\<close> on line 82 holds for
  a Python boolean, so the number branch answers first with \<^verbatim>\<open>str(value)\<close>, which is
  \<^verbatim>\<open>True\<close> or \<^verbatim>\<open>False\<close>, and the boolean branch of line 84 is never reached for it.
\<close>

theorem format_value_bool_undeclared:
  "format_value (JBool b) JNull = Inr (if b then ''True'' else ''False'')"
  by (simp add: format_scalar_def py_str_def)

text \<open>
  C8. Formatting a string value gives a literal in single quotes; between the two outer
  quotes there are exactly twice as many quote characters as the value has, and reading
  the literal back (outer quotes stripped, doubled quotes collapsed) gives the value.
  This holds whatever type is declared, since a string value always takes the string
  branch.
\<close>

theorem string_literal_roundtrip:
  "\<exists>lit. format_value (JStr s) value_type = Inr lit
     \<and> 2 \<le> length lit \<and> hd lit = CHR 0x27 \<and> last lit = CHR 0x27
     \<and> count_list (strip_ends lit) (CHR 0x27) = 2 * count_list s (CHR 0x27)
     \<and> sql_unquote lit = Some s"
proof -
  let ?lit = "quoted (escape_quotes s)"
  have "format_value (JStr s) value_type = Inr ?lit" by (rule format_value_str)
  moreover have ends: "2 \<le> length ?lit" "hd ?lit = CHR 0x27" "last ?lit = CHR 0x27"
    by (simp_all add: quoted_def)
  moreover have "count_list (strip_ends ?lit) (CHR 0x27) = 2 * count_list s (CHR 0x27)"
    by (simp add: strip_ends_quoted count_escape)
  moreover have "sql_unquote ?lit = Some s"
    using ends by (simp add: sql_unquote_def strip_ends_quoted collapse_escape)
  ultimately show ?thesis by blast
qed

theorem string_literal_roundtrip_witness:
  "format_value (JStr ''it's'') (JStr ''number'')
     = Inr (CHR 0x27 # ''it'' @ [CHR 0x27, CHR 0x27] @ ''s'' @ [CHR 0x27])
   \<and> sql_unquote (CHR 0x27 # ''it'' @ [CHR 0x27, CHR 0x27] @ ''s'' @ [CHR 0x27]) = Some ''it's''"
  using string_literal_roundtrip [of "''it's''" "JStr ''number''"]
  by (simp add: format_scalar_def py_str_def escape_quotes_def replace_char_def quoted_def)

section \<open>Properties of the rule compiler\<close>

lemma and_then_Inl [simp]: "and_then (Inl e) f = Inl e"
  by (simp add: and_then_def)

lemma and_then_Inr [simp]: "and_then (Inr x) f = f x"
  by (simp add: and_then_def)

lemma and_then_raises:
  "(\<And>x. \<exists>e. f x = Inl e) \<Longrightarrow> \<exists>e. and_then m f = Inl e"
  by (cases m) simp_all

lemma between_falls_through:
  assumes "op = ''between'' \<or> op = ''not_between''"
  shows "\<not> op_in (JStr op) ''is_null'' ''is_not_null''"
    and "\<not> op_in (JStr op) ''is_empty'' ''is_not_empty''"
    and "\<not> op_in (JStr op) ''in'' ''not_in''"
    and "op \<noteq> ''starts_with''" and "op \<noteq> ''ends_with''"
  using assms by (auto simp: op_in_def)

text \<open>
  C2 (as amended). A \<^verbatim>\<open>between\<close> or \<^verbatim>\<open>not_between\<close> rule whose value is absent or an
  empty sequence raises: a KeyError when \<^verbatim>\<open>field\<close> or \<^verbatim>\<open>value\<close> is missing, an
  IndexError from \<^verbatim>\<open>value[0]\<close> on the empty list.
\<close>

theorem between_without_values_raises:
  assumes props: "subscript rule ''properties'' = Inr (JDict ps)"
    and oper: "map_of ps ''operator'' = Some (JStr op)"
    and betw: "op = ''between'' \<or> op = ''not_between''"
    and val: "map_of ps ''value'' = None \<or> map_of ps ''value'' = Some (JList [])"
  shows "process_rule rule =
    Inl (if map_of ps ''field'' = None \<or> map_of ps ''value'' = None then KeyError
         else IndexError)"
proof (cases "map_of ps ''field''")
  case None
  then show ?thesis
    by (simp add: process_rule_def props oper)
next
  case (Some field)
  note ns = between_falls_through [OF betw]
  from val show ?thesis
  proof
    assume "map_of ps ''value'' = None"
    then show ?thesis
      by (simp add: process_rule_def props oper Some ns)
  next
    assume "map_of ps ''value'' = Some (JList [])"
    then show ?thesis
      by (simp add: process_rule_def props oper Some ns split: option.split)
  qed
qed

theorem between_without_values_raises_witness:
  "process_rule (JDict [(''properties'', JDict [(''field'', JStr ''x''),
      (''operator'', JStr ''between''), (''value'', JList [])])]) = Inl IndexError"
  using between_without_values_raises [of
     "JDict [(''properties'', JDict [(''field'', JStr ''x''),
      (''operator'', JStr ''between''), (''value'', JList [])])]"
     "[(''field'', JStr ''x''), (''operator'', JStr ''between''), (''value'', JList [])]"
     "''between''"]
  by simp

text \<open>The claim as first stated fails: the guard of line 134 only skips the range
  branch, and here a scalar value and a one-element sequence reach lines 159 to 162 and
  give SQL text, with one operand after the range keyword.\<close>

theorem between_short_value_counterexample:
  "process_rule (JDict [(''type'', JStr ''rule''), (''properties'', JDict [(''field'', JStr ''x''),
      (''operator'', JStr ''between''), (''value'', JInt 5)])]) = Inr ''x BETWEEN 5''
   \<and> process_rule (JDict [(''type'', JStr ''rule''), (''properties'', JDict [(''field'', JStr ''x''),
      (''operator'', JStr ''not_between''), (''value'', JList [JInt 1])])]) = Inr ''x NOT BETWEEN 1''"
  by (simp add: process_rule_def op_in_def render_def OPERATOR_MAPPING_def format_scalar_def
      py_str_def str_int_def)

text \<open>
  The operator is checked by nothing but the lookup in \<^verbatim>\<open>OPERATOR_MAPPING\<close> on line
  162. A rule whose operator string is none of the twenty keys of the table raises: the
  lookup is a KeyError, unless a missing \<^verbatim>\<open>field\<close> or \<^verbatim>\<open>value\<close> or the value
  formatter raised before it.
\<close>

lemma unknown_operator_raises:
  assumes props: "subscript rule ''properties'' = Inr (JDict ps)"
    and oper: "map_of ps ''operator'' = Some (JStr op)"
    and unknown: "op \<notin> {''equal'', ''not_equal'', ''less'', ''less_or_equal'', ''greater'',
        ''greater_or_equal'', ''like'', ''not_like'', ''starts_with'', ''ends_with'',
        ''between'', ''not_between'', ''is_null'', ''is_not_null'', ''is_empty'',
        ''is_not_empty'', ''in'', ''not_in'', ''AND'', ''OR''}"
  shows "\<exists>e. process_rule rule = Inl e"
proof -
  have no_entry: "map_of OPERATOR_MAPPING op = None"
    using unknown by (simp add: OPERATOR_MAPPING_def)
  have render: "\<And>field rest. render field (JStr op) rest = Inl KeyError"
    by (simp add: render_def no_entry)
  have flags: "\<not> op_in (JStr op) ''is_null'' ''is_not_null''"
    "\<not> op_in (JStr op) ''is_empty'' ''is_not_empty''"
    "\<not> op_in (JStr op) ''between'' ''not_between''"
    "\<not> op_in (JStr op) ''in'' ''not_in''"
    "op \<noteq> ''starts_with''" "op \<noteq> ''ends_with''"
    using unknown by (auto simp: op_in_def)
  have oper': "subscript (JDict ps) ''operator'' = Inr (JStr op)"
    using oper by simp
  have "process_rule rule =
      and_then (subscript (JDict ps) ''field'') (\<lambda>field.
      and_then (subscript (JDict ps) ''value'') (\<lambda>val.
      and_then (dict_get (JDict ps) ''valueType'' JNull) (\<lambda>value_type.
      and_then (first_if_list val) (\<lambda>v0.
      and_then (first_if_list value_type) (\<lambda>t0.
      and_then (format_value v0 t0) (render field (JStr op)))))))"
    unfolding process_rule_def
    by (simp add: props oper' flags del: subscript.simps dict_get.simps)
  also have "\<exists>e. \<dots> = Inl e"
    by (intro and_then_raises) (simp add: render)
  finally show ?thesis .
qed

lemma unknown_operator_raises_example:
  "\<exists>e. process_rule (JDict [(''type'', JStr ''rule''), (''properties'', JDict [(''field'', JStr ''x''),
      (''operator'', JStr ''matches''), (''value'', JStr ''a'')])]) = Inl e"
  using unknown_operator_raises [of
     "JDict [(''type'', JStr ''rule''), (''properties'', JDict [(''field'', JStr ''x''),
      (''operator'', JStr ''matches''), (''value'', JStr ''a'')])]"
     "[(''field'', JStr ''x''), (''operator'', JStr ''matches''), (''value'', JStr ''a'')]"
     "''matches''"]
  by simp

text \<open>
  C3. A rule whose operator is not one of the eighteen rule operators should fail. It
  does not when the operator is \<^verbatim>\<open>AND\<close> or \<^verbatim>\<open>OR\<close>: the table holds these two keys
  as well, under the comment \<^verbatim>\<open># For groups\<close> (lines 36 to 38), the group compiler
  never looks them up, and the lookup of the rule compiler finds them. The rule
  compiles, with the conjunction where the comparison operator belongs.
\<close>

theorem rule_accepts_group_conjunction:
  "process_rule (JDict [(''type'', JStr ''rule''), (''properties'', JDict [(''field'', JStr ''x''),
      (''operator'', JStr ''AND''), (''value'', JInt 5)])]) = Inr ''x AND 5''
   \<and> process_rule (JDict [(''type'', JStr ''rule''), (''properties'', JDict [(''field'', JStr ''x''),
      (''operator'', JStr ''OR''), (''value'', JInt 5)])]) = Inr ''x OR 5''"
  by (simp add: process_rule_def op_in_def render_def OPERATOR_MAPPING_def format_scalar_def
      py_str_def str_int_def)

lemma format_value_scalar: "scalar v \<Longrightarrow> \<exists>s. format_value v t = Inr s"
  by (cases v) simp_all

lemma collect_all_ok: "\<forall>m\<in>set ms. \<exists>v. m = Inr v \<Longrightarrow> \<exists>vs. collect ms = Inr vs"
  by (induction ms) auto

lemma format_value_many:
  "2 \<le> length xs \<Longrightarrow> format_value (JList xs) t =
     and_then (collect (map (\<lambda>v. format_value v JNull) xs))
       (\<lambda>parts. Inr (''('' @ join '', '' parts @ '')''))"
proof (cases xs)
  case Nil
  assume "2 \<le> length xs"
  with Nil show ?thesis by simp
next
  case (Cons a ys)
  assume "2 \<le> length xs"
  with Cons obtain b zs where "ys = b # zs" by (cases ys) auto
  with Cons show ?thesis
    by (simp add: and_then_def del: collect.simps split: sum.splits)
qed

lemma format_value_single:
  "format_value (JList [x]) t =
     and_then (first_if_list t) (\<lambda>t0. format_value x t0)"
proof (cases t)
  case (JList ts)
  then show ?thesis by (cases ts) simp_all
qed simp_all

lemma in_falls_through:
  assumes "op = ''in'' \<or> op = ''not_in''"
  shows "\<not> op_in (JStr op) ''is_null'' ''is_not_null''"
    and "\<not> op_in (JStr op) ''is_empty'' ''is_not_empty''"
    and "\<not> op_in (JStr op) ''between'' ''not_between''"
    and "op_in (JStr op) ''in'' ''not_in''"
    and "render field (JStr op) =
      (\<lambda>v. Inr (py_str field @ '' '' @ (if op = ''in'' then ''IN'' else ''NOT IN'') @ '' '' @ v))"
  using assms by (auto simp: op_in_def OPERATOR_MAPPING_def render_def)

lemma process_rule_in:
  assumes props: "subscript rule ''properties'' = Inr (JDict ps)"
    and oper: "map_of ps ''operator'' = Some (JStr op)"
    and isin: "op = ''in'' \<or> op = ''not_in''"
    and field: "map_of ps ''field'' = Some field"
    and val: "map_of ps ''value'' = Some val"
    and vt: "dict_get (JDict ps) ''valueType'' JNull = Inr value_type"
  shows "process_rule rule =
     and_then (format_value val value_type) (\<lambda>v.
       Inr (py_str field @ '' '' @ (if op = ''in'' then ''IN'' else ''NOT IN'') @ '' '' @ v))"
proof -
  have subs: "subscript (JDict ps) ''operator'' = Inr (JStr op)"
    "subscript (JDict ps) ''field'' = Inr field" "subscript (JDict ps) ''value'' = Inr val"
    using oper field val by simp_all
  show ?thesis
    unfolding process_rule_def
    by (simp only: props subs vt in_falls_through [OF isin] and_then_Inr if_True if_False simp_thms)
qed

text \<open>
  C9. For an \<^verbatim>\<open>in\<close> or \<^verbatim>\<open>not_in\<close> rule the whole value goes through the value
  formatter. A one-element sequence is unwrapped: the condition is the field, the
  keyword and the formatted sole element, with nothing put around it (the declared type
  loses its first level too). A sequence of two or more elements gives the tuple in
  parentheses, the elements formatted with no declared type and joined by a comma and a
  space. With scalar elements, and a declared type that is not an empty sequence, the
  rule compiles.
\<close>

theorem in_single_value_unwrapped:
  assumes props: "subscript rule ''properties'' = Inr (JDict ps)"
    and oper: "map_of ps ''operator'' = Some (JStr op)"
    and isin: "op = ''in'' \<or> op = ''not_in''"
    and field: "map_of ps ''field'' = Some field"
    and val: "map_of ps ''value'' = Some (JList xs)"
    and vt: "dict_get (JDict ps) ''valueType'' JNull = Inr value_type"
  shows "(xs = [x] \<longrightarrow> process_rule rule =
            and_then (first_if_list value_type) (\<lambda>t.
            and_then (format_value x t) (\<lambda>v.
              Inr (py_str field @ '' '' @ (if op = ''in'' then ''IN'' else ''NOT IN'')
                     @ '' '' @ v))))
       \<and> (2 \<le> length xs \<longrightarrow> process_rule rule =
            and_then (collect (map (\<lambda>v. format_value v JNull) xs)) (\<lambda>vs.
              Inr (py_str field @ '' '' @ (if op = ''in'' then ''IN'' else ''NOT IN'')
                     @ '' ('' @ join '', '' vs @ '')'')))
       \<and> (xs \<noteq> [] \<and> (\<forall>v\<in>set xs. scalar v) \<and> value_type \<noteq> JList []
            \<longrightarrow> (\<exists>s. process_rule rule = Inr s))"
proof -
  note eq = process_rule_in [OF props oper isin field val vt]
  have one: "process_rule rule =
            and_then (first_if_list value_type) (\<lambda>t.
            and_then (format_value x t) (\<lambda>v.
              Inr (py_str field @ '' '' @ (if op = ''in'' then ''IN'' else ''NOT IN'')
                     @ '' '' @ v)))" if "xs = [x]" for x
    unfolding eq that format_value_single
    by (cases "first_if_list value_type") simp_all
  have many: "process_rule rule =
            and_then (collect (map (\<lambda>v. format_value v JNull) xs)) (\<lambda>vs.
              Inr (py_str field @ '' '' @ (if op = ''in'' then ''IN'' else ''NOT IN'')
                     @ '' ('' @ join '', '' vs @ '')''))" if "2 \<le> length xs"
    unfolding eq format_value_many [OF that]
    by (cases "collect (map (\<lambda>v. format_value v JNull) xs)") simp_all
  have ok: "\<exists>s. process_rule rule = Inr s"
    if ne: "xs \<noteq> []" and sc: "\<forall>v\<in>set xs. scalar v" and t: "value_type \<noteq> JList []"
  proof (cases "2 \<le> length xs")
    case True
    have "\<forall>m\<in>set (map (\<lambda>v. format_value v JNull) xs). \<exists>s. m = Inr s"
      using sc format_value_scalar by auto
    then obtain vs where "collect (map (\<lambda>v. format_value v JNull) xs) = Inr vs"
      using collect_all_ok by blast
    then show ?thesis using many [OF True] by simp
  next
    case False
    with ne obtain y where y: "xs = [y]"
      by (cases xs) (auto simp: Suc_le_eq)
    from t obtain t0 where t0: "first_if_list value_type = Inr t0"
      by (cases value_type rule: first_if_list.cases) simp_all
    from sc y obtain s where "format_value y t0 = Inr s"
      using format_value_scalar by fastforce
    then show ?thesis using one [OF y] t0 by simp
  qed
  from one many ok show ?thesis by blast
qed

theorem in_single_value_unwrapped_witness:
  "process_rule (JDict [(''type'', JStr ''rule''), (''properties'', JDict [(''field'', JStr ''n''),
      (''operator'', JStr ''in''), (''value'', JList [JInt 7])])]) = Inr ''n IN 7''
   \<and> process_rule (JDict [(''type'', JStr ''rule''), (''properties'', JDict [(''field'', JStr ''n''),
      (''operator'', JStr ''not_in''), (''value'', JList [JInt 7, JInt 8])])])
       = Inr ''n NOT IN (7, 8)''"
  using in_single_value_unwrapped [of
      "JDict [(''type'', JStr ''rule''), (''properties'', JDict [(''field'', JStr ''n''),
        (''operator'', JStr ''in''), (''value'', JList [JInt 7])])]"
      "[(''field'', JStr ''n''), (''operator'', JStr ''in''), (''value'', JList [JInt 7])]"
      "''in''" "JStr ''n''" "[JInt 7]" JNull "JInt 7"]
    in_single_value_unwrapped [of
      "JDict [(''type'', JStr ''rule''), (''properties'', JDict [(''field'', JStr ''n''),
        (''operator'', JStr ''not_in''), (''value'', JList [JInt 7, JInt 8])])]"
      "[(''field'', JStr ''n''), (''operator'', JStr ''not_in''), (''value'', JList [JInt 7, JInt 8])]"
      "''not_in''" "JStr ''n''" "[JInt 7, JInt 8]" JNull "JInt 7"]
  by (simp add: format_scalar_def py_str_def str_int_def)

section \<open>Properties of the group compiler\<close>

text \<open>The loop computes what \<open>compile_child\<close> gives for each child, in order, and
  stops at the first child that raises.\<close>

lemma process_children_collect:
  "process_children cs acc =
     and_then (collect (map compile_child cs)) (\<lambda>os. Inr (acc @ present os))"
proof (induction cs arbitrary: acc)
  case Nil
  show ?case by simp
next
  case (Cons c cs)
  show ?case
  proof (cases "compile_child c")
    case (Inl e)
    then show ?thesis
      by (auto simp: compile_child_def and_then_def split: sum.splits if_splits)
  next
    case (Inr o1)
    then show ?thesis
      by (cases "collect (map compile_child cs)")
         (auto simp: compile_child_def and_then_def Cons.IH split: sum.splits if_splits)
  qed
qed

lemma process_group_children:
  assumes kids: "map_of kvs ''children1'' = Some (JList cs)" and ne: "cs \<noteq> []"
    and props: "dict_get (JDict kvs) ''properties'' (JDict []) = Inr props"
    and conj: "dict_get props ''conjunction'' (JStr ''AND'') = Inr conjunction"
    and neg: "dict_get props ''not'' (JBool False) = Inr negate"
  shows "process_group (JDict kvs) =
     and_then (collect (map compile_child cs))
       (\<lambda>os. Inr (finish_group conjunction negate (present os)))"
proof -
  have "dict_get (JDict kvs) ''children1'' (JList []) = Inr (JList cs)"
    using kids by simp
  then show ?thesis
    using ne
    by (subst process_group.simps)
       (simp add: props conj neg process_children_collect and_then_def
          del: dict_get.simps split: sum.splits)
qed

lemma process_group_empty:
  assumes kids: "map_of kvs ''children1'' = None \<or> map_of kvs ''children1'' = Some (JList [])"
    and props: "dict_get (JDict kvs) ''properties'' (JDict []) = Inr props"
    and conj: "dict_get props ''conjunction'' (JStr ''AND'') = Inr conjunction"
    and neg: "dict_get props ''not'' (JBool False) = Inr negate"
  shows "process_group (JDict kvs) = Inr ''TRUE''"
proof -
  have "dict_get (JDict kvs) ''children1'' (JList []) = Inr (JList [])"
    using kids by auto
  then show ?thesis
    by (subst process_group.simps)
       (simp add: props conj neg del: dict_get.simps)
qed

lemma finish_group_unfold:
  "finish_group conjunction negate conds =
     (if truthy negate then ''NOT '' else '''') @
     (if 1 < length conds then ''('' @ join ('' '' @ py_str conjunction @ '' '') conds @ '')''
      else join ('' '' @ py_str conjunction @ '' '') conds)"
  by (simp add: finish_group_def Let_def)

text \<open>
  C4 (as amended). The children are read from the key \<^verbatim>\<open>children1\<close> (line 179). When
  that sequence is not empty, the group compiler compiles each child of type rule or
  group in the original order, skips the others, and joins the results with the
  conjunction, in parentheses when there is more than one and after \<^verbatim>\<open>NOT\<close> when the
  group is negated; the first child that raises ends the compilation. The result is
  the joined text, not the constant of the empty group.
\<close>

theorem group_compiles_children_in_order:
  assumes kids: "map_of kvs ''children1'' = Some (JList cs)" and ne: "cs \<noteq> []"
    and props: "dict_get (JDict kvs) ''properties'' (JDict []) = Inr props"
    and conj: "dict_get props ''conjunction'' (JStr ''AND'') = Inr conjunction"
    and neg: "dict_get props ''not'' (JBool False) = Inr negate"
  shows "process_group (JDict kvs) =
     and_then (collect (map compile_child cs)) (\<lambda>os.
       let conds = present os;
           joined = join ('' '' @ py_str conjunction @ '' '') conds;
           wrapped = (if 1 < length conds then ''('' @ joined @ '')'' else joined)
       in Inr (if truthy negate then ''NOT '' @ wrapped else wrapped))"
  unfolding process_group_children [OF kids ne props conj neg]
  by (simp add: finish_group_def Let_def)

theorem group_compiles_children_in_order_witness:
  "process_group (JDict [(''type'', JStr ''group''),
      (''properties'', JDict [(''conjunction'', JStr ''OR'')]),
      (''children1'', JList [
         JDict [(''type'', JStr ''rule''), (''properties'',
            JDict [(''field'', JStr ''a''), (''operator'', JStr ''is_null'')])],
         JDict [(''type'', JStr ''note'')],
         JDict [(''type'', JStr ''group''), (''children1'', JList [
            JDict [(''type'', JStr ''rule''), (''properties'',
              JDict [(''field'', JStr ''b''), (''operator'', JStr ''is_not_null'')])]])]])])
   = Inr ''(a IS NULL OR b IS NOT NULL)''"
  using group_compiles_children_in_order [of
      "[(''type'', JStr ''group''),
      (''properties'', JDict [(''conjunction'', JStr ''OR'')]),
      (''children1'', JList [
         JDict [(''type'', JStr ''rule''), (''properties'',
            JDict [(''field'', JStr ''a''), (''operator'', JStr ''is_null'')])],
         JDict [(''type'', JStr ''note'')],
         JDict [(''type'', JStr ''group''), (''children1'', JList [
            JDict [(''type'', JStr ''rule''), (''properties'',
              JDict [(''field'', JStr ''b''), (''operator'', JStr ''is_not_null'')])]])]])]"
      "[JDict [(''type'', JStr ''rule''), (''properties'',
            JDict [(''field'', JStr ''a''), (''operator'', JStr ''is_null'')])],
         JDict [(''type'', JStr ''note'')],
         JDict [(''type'', JStr ''group''), (''children1'', JList [
            JDict [(''type'', JStr ''rule''), (''properties'',
              JDict [(''field'', JStr ''b''), (''operator'', JStr ''is_not_null'')])]])]]"
      "JDict [(''conjunction'', JStr ''OR'')]" "JStr ''OR''" "JBool False"]
  by (simp add: compile_child_def process_rule_def op_in_def OPERATOR_MAPPING_def py_str_def
      process_group.simps finish_group_def)

text \<open>The claim as first stated fails twice: a group that keeps its children under
  \<^verbatim>\<open>children\<close> has, for the code, no children at all; and a group whose only child is
  an empty group returns that child's text, which is \<^verbatim>\<open>TRUE\<close>.\<close>

theorem children_key_counterexample:
  "process_group (JDict [(''type'', JStr ''group''),
      (''properties'', JDict [(''conjunction'', JStr ''AND''), (''not'', JBool False)]),
      (''children'', JList [
         JDict [(''type'', JStr ''rule''), (''properties'',
            JDict [(''field'', JStr ''a''), (''operator'', JStr ''is_null'')])]])])
     = Inr ''TRUE''
   \<and> process_group (JDict [(''type'', JStr ''group''),
      (''properties'', JDict [(''conjunction'', JStr ''AND''), (''not'', JBool False)]),
      (''children1'', JList [JDict [(''type'', JStr ''group''), (''children1'', JList [])]])])
     = Inr ''TRUE''"
  by (simp add: process_group.simps finish_group_def)

text \<open>
  C5 (as amended). The parentheses follow the number of compiled conditions, not the
  number of children. For a group whose children (key \<^verbatim>\<open>children1\<close>) all compile: with
  exactly one child the output is that child's text, or nothing when its type is
  skipped, after \<^verbatim>\<open>NOT\<close> when the group is negated, and the group puts no parentheses
  around it; with two or more children of type rule or group the joined text stands in
  exactly one pair of parentheses that the group adds; with fewer than two such
  children it stands bare.
\<close>

theorem group_parentheses:
  assumes kids: "map_of kvs ''children1'' = Some (JList cs)"
    and props: "dict_get (JDict kvs) ''properties'' (JDict []) = Inr props"
    and conj: "dict_get props ''conjunction'' (JStr ''AND'') = Inr conjunction"
    and neg: "dict_get props ''not'' (JBool False) = Inr negate"
    and compiled: "collect (map compile_child cs) = Inr os"
  shows "(cs = [c] \<longrightarrow> process_group (JDict kvs) =
            Inr ((if truthy negate then ''NOT '' else '''') @
                 (case compile_child c of Inr (Some s) \<Rightarrow> s | _ \<Rightarrow> '''')))
       \<and> (2 \<le> length (present os) \<longrightarrow> process_group (JDict kvs) =
            Inr ((if truthy negate then ''NOT '' else '''') @
                 ''('' @ join ('' '' @ py_str conjunction @ '' '') (present os) @ '')''))
       \<and> (cs \<noteq> [] \<and> length (present os) < 2 \<longrightarrow> process_group (JDict kvs) =
            Inr ((if truthy negate then ''NOT '' else '''') @
                 join ('' '' @ py_str conjunction @ '' '') (present os)))"
proof -
  have eq: "process_group (JDict kvs) = Inr (finish_group conjunction negate (present os))"
    if "cs \<noteq> []"
    using process_group_children [OF kids that props conj neg] compiled by simp
  have one: "process_group (JDict kvs) =
            Inr ((if truthy negate then ''NOT '' else '''') @
                 (case compile_child c of Inr (Some s) \<Rightarrow> s | _ \<Rightarrow> ''''))" if c: "cs = [c]"
  proof -
    from compiled c obtain o1 where o1: "compile_child c = Inr o1" "os = [o1]"
      by (auto split: sum.splits)
    from c have "cs \<noteq> []" by simp
    from eq [OF this] o1 show ?thesis
      by (cases o1) (simp_all add: finish_group_unfold)
  qed
  have many: "process_group (JDict kvs) =
            Inr ((if truthy negate then ''NOT '' else '''') @
                 ''('' @ join ('' '' @ py_str conjunction @ '' '') (present os) @ '')'')"
    if two: "2 \<le> length (present os)"
  proof -
    from two compiled have "cs \<noteq> []" by auto
    from eq [OF this] two show ?thesis
      by (simp add: finish_group_unfold)
  qed
  have few: "process_group (JDict kvs) =
            Inr ((if truthy negate then ''NOT '' else '''') @
                 join ('' '' @ py_str conjunction @ '' '') (present os))"
    if "cs \<noteq> []" "length (present os) < 2"
    using eq [OF that(1)] that(2) by (simp add: finish_group_unfold)
  from one many few show ?thesis by blast
qed

theorem group_parentheses_witness:
  "process_group (JDict [(''type'', JStr ''group''),
      (''properties'', JDict [(''not'', JBool True)]),
      (''children1'', JList [
         JDict [(''type'', JStr ''rule''), (''properties'',
            JDict [(''field'', JStr ''a''), (''operator'', JStr ''is_null'')])],
         JDict [(''type'', JStr ''rule''), (''properties'',
            JDict [(''field'', JStr ''b''), (''operator'', JStr ''is_null'')])]])])
   = Inr ''NOT (a IS NULL AND b IS NULL)''"
  using group_parentheses [of
      "[(''type'', JStr ''group''),
      (''properties'', JDict [(''not'', JBool True)]),
      (''children1'', JList [
         JDict [(''type'', JStr ''rule''), (''properties'',
            JDict [(''field'', JStr ''a''), (''operator'', JStr ''is_null'')])],
         JDict [(''type'', JStr ''rule''), (''properties'',
            JDict [(''field'', JStr ''b''), (''operator'', JStr ''is_null'')])]])]"
      "[JDict [(''type'', JStr ''rule''), (''properties'',
            JDict [(''field'', JStr ''a''), (''operator'', JStr ''is_null'')])],
         JDict [(''type'', JStr ''rule''), (''properties'',
            JDict [(''field'', JStr ''b''), (''operator'', JStr ''is_null'')])]]"
      "JDict [(''not'', JBool True)]" "JStr ''AND''" "JBool True"
      "[Some ''a IS NULL'', Some ''b IS NULL'']" JNull]
  by (simp add: compile_child_def process_rule_def op_in_def OPERATOR_MAPPING_def py_str_def)

text \<open>The claim as first stated fails: of these two children one has a type the loop
  skips, one condition is left, and the output has no parentheses.\<close>

theorem skipped_child_counterexample:
  "process_group (JDict [(''type'', JStr ''group''),
      (''properties'', JDict [(''conjunction'', JStr ''AND''), (''not'', JBool False)]),
      (''children1'', JList [
         JDict [(''type'', JStr ''rule''), (''properties'',
            JDict [(''field'', JStr ''a''), (''operator'', JStr ''is_null'')])],
         JDict [(''type'', JStr ''note'')]])])
     = Inr ''a IS NULL''"
  by (simp add: process_group.simps finish_group_def process_rule_def op_in_def
      OPERATOR_MAPPING_def py_str_def)

lemma dict_get_dict: "\<exists>v. dict_get (JDict kvs) k d = Inr v"
  by (simp split: option.split)

lemma generate_sql_group:
  "map_of kvs ''type'' = Some (JStr ''group'') \<Longrightarrow>
   fst (generate_sql self (JDict kvs)) = process_group (JDict kvs)"
  by (simp add: generate_sql_def Let_def)

text \<open>
  C6. A group (its properties absent or an object) whose child sequence is absent or
  empty compiles to exactly \<^verbatim>\<open>TRUE\<close>, through \<open>process_group\<close> and through the entry
  point \<open>generate_sql\<close>, whatever its conjunction and negation say.
\<close>

theorem empty_group_is_true:
  assumes ty: "map_of kvs ''type'' = Some (JStr ''group'')"
    and props: "map_of kvs ''properties'' = None
                \<or> (\<exists>ps. map_of kvs ''properties'' = Some (JDict ps))"
    and kids: "map_of kvs ''children1'' = None \<or> map_of kvs ''children1'' = Some (JList [])"
  shows "process_group (JDict kvs) = Inr ''TRUE''
       \<and> fst (generate_sql self (JDict kvs)) = Inr ''TRUE''"
proof -
  from props obtain ps where ps: "dict_get (JDict kvs) ''properties'' (JDict []) = Inr (JDict ps)"
    by auto
  obtain conjunction negate
    where "dict_get (JDict ps) ''conjunction'' (JStr ''AND'') = Inr conjunction"
      and "dict_get (JDict ps) ''not'' (JBool False) = Inr negate"
    using dict_get_dict by blast
  from process_group_empty [OF kids ps this]
  have "process_group (JDict kvs) = Inr ''TRUE''" .
  with generate_sql_group [OF ty] show ?thesis by simp
qed

theorem empty_group_is_true_witness:
  "process_group (JDict [(''type'', JStr ''group''),
      (''properties'', JDict [(''conjunction'', JStr ''OR''), (''not'', JBool True)]),
      (''children1'', JList [])]) = Inr ''TRUE''
   \<and> fst (generate_sql \<lparr>use_params = False, params = [], param_index = 0\<rparr>
        (JDict [(''type'', JStr ''group''),
          (''properties'', JDict [(''conjunction'', JStr ''OR''), (''not'', JBool True)]),
          (''children1'', JList [])])) = Inr ''TRUE''"
  using empty_group_is_true [of
      "[(''type'', JStr ''group''),
        (''properties'', JDict [(''conjunction'', JStr ''OR''), (''not'', JBool True)]),
        (''children1'', JList [])]"
      "\<lparr>use_params = False, params = [], param_index = 0\<rparr>"]
  by simp

text \<open>
  C7. Two groups with the same single child and the same conjunction, one with
  \<^verbatim>\<open>not\<close> true and one with \<^verbatim>\<open>not\<close> false: the output of the first is \<^verbatim>\<open>NOT\<close> and
  a space followed by the output of the second, and the first raises exactly when the
  second does, with the same exception.
\<close>

theorem negation_prefixes_not:
  assumes ty1: "map_of g1 ''type'' = Some (JStr ''group'')"
    and ty2: "map_of g2 ''type'' = Some (JStr ''group'')"
    and props1: "map_of g1 ''properties'' = Some (JDict p1)"
    and props2: "map_of g2 ''properties'' = Some (JDict p2)"
    and not1: "map_of p1 ''not'' = Some (JBool True)"
    and not2: "map_of p2 ''not'' = Some (JBool False)"
    and conj: "map_of p1 ''conjunction'' = map_of p2 ''conjunction''"
    and kids1: "map_of g1 ''children1'' = Some (JList [c])"
    and kids2: "map_of g2 ''children1'' = Some (JList [c])"
  shows "process_group (JDict g1) =
           and_then (process_group (JDict g2)) (\<lambda>s. Inr (''NOT '' @ s))
       \<and> fst (generate_sql self (JDict g1)) =
           and_then (fst (generate_sql self (JDict g2))) (\<lambda>s. Inr (''NOT '' @ s))"
proof -
  obtain conjunction where c2: "dict_get (JDict p2) ''conjunction'' (JStr ''AND'') = Inr conjunction"
    using dict_get_dict by blast
  with conj have c1: "dict_get (JDict p1) ''conjunction'' (JStr ''AND'') = Inr conjunction"
    by simp
  have d1: "dict_get (JDict g1) ''properties'' (JDict []) = Inr (JDict p1)"
    and d2: "dict_get (JDict g2) ''properties'' (JDict []) = Inr (JDict p2)"
    and n1: "dict_get (JDict p1) ''not'' (JBool False) = Inr (JBool True)"
    and n2: "dict_get (JDict p2) ''not'' (JBool False) = Inr (JBool False)"
    using props1 props2 not1 not2 by simp_all
  have ne: "[c] \<noteq> []" by simp
  have e1: "process_group (JDict g1) =
      and_then (collect (map compile_child [c]))
        (\<lambda>os. Inr (finish_group conjunction (JBool True) (present os)))"
    by (rule process_group_children [OF kids1 ne d1 c1 n1])
  have e2: "process_group (JDict g2) =
      and_then (collect (map compile_child [c]))
        (\<lambda>os. Inr (finish_group conjunction (JBool False) (present os)))"
    by (rule process_group_children [OF kids2 ne d2 c2 n2])
  have "process_group (JDict g1) =
           and_then (process_group (JDict g2)) (\<lambda>s. Inr (''NOT '' @ s))"
    unfolding e1 e2
    by (cases "collect (map compile_child [c])") (simp_all add: finish_group_unfold)
  then show ?thesis
    by (simp add: generate_sql_group [OF ty1] generate_sql_group [OF ty2])
qed

theorem negation_prefixes_not_witness:
  "process_group (JDict [(''type'', JStr ''group''),
      (''properties'', JDict [(''conjunction'', JStr ''AND''), (''not'', JBool True)]),
      (''children1'', JList [
         JDict [(''type'', JStr ''rule''), (''properties'',
            JDict [(''field'', JStr ''a''), (''operator'', JStr ''is_null'')])]])])
     = Inr ''NOT a IS NULL''
   \<and> process_group (JDict [(''type'', JStr ''group''),
      (''properties'', JDict [(''conjunction'', JStr ''AND''), (''not'', JBool False)]),
      (''children1'', JList [
         JDict [(''type'', JStr ''rule''), (''properties'',
            JDict [(''field'', JStr ''a''), (''operator'', JStr ''is_null'')])]])])
     = Inr ''a IS NULL''"
  using negation_prefixes_not [of
      "[(''type'', JStr ''group''),
      (''properties'', JDict [(''conjunction'', JStr ''AND''), (''not'', JBool True)]),
      (''children1'', JList [
         JDict [(''type'', JStr ''rule''), (''properties'',
            JDict [(''field'', JStr ''a''), (''operator'', JStr ''is_null'')])]])]"
      "[(''type'', JStr ''group''),
      (''properties'', JDict [(''conjunction'', JStr ''AND''), (''not'', JBool False)]),
      (''children1'', JList [
         JDict [(''type'', JStr ''rule''), (''properties'',
            JDict [(''field'', JStr ''a''), (''operator'', JStr ''is_null'')])]])]"
      "[(''conjunction'', JStr ''AND''), (''not'', JBool True)]"
      "[(''conjunction'', JStr ''AND''), (''not'', JBool False)]"
      "JDict [(''type'', JStr ''rule''), (''properties'',
            JDict [(''field'', JStr ''a''), (''operator'', JStr ''is_null'')])]"
      "\<lparr>use_params = False, params = [], param_index = 0\<rparr>"]
  by (simp add: process_group.simps finish_group_def process_rule_def op_in_def
      OPERATOR_MAPPING_def py_str_def)

lemma collect_map_ok:
  "\<forall>c\<in>set cs. \<exists>r. f c = Inr r \<Longrightarrow> \<exists>rs. collect (map f cs) = Inr rs"
  by (induction cs) auto

text \<open>
  C10 (as amended). A group node with no \<^verbatim>\<open>properties\<close> key compiles exactly as the
  same node with the properties \<^verbatim>\<open>{conjunction: AND, not: false}\<close>: the same output or
  the same exception. When \<^verbatim>\<open>children1\<close> is absent or a sequence, the output is
  \<^verbatim>\<open>TRUE\<close> for no children and otherwise the conditions of the children, in order,
  joined with \<^verbatim>\<open>AND\<close>, in parentheses when more than one, with no \<^verbatim>\<open>NOT\<close> before
  it; the first child that raises ends the compilation with its exception, and the
  group compiles whenever each child does.
\<close>

theorem group_without_properties:
  assumes noprops: "map_of kvs ''properties'' = None"
  shows "process_group (JDict kvs) =
           process_group (JDict ((''properties'',
              JDict [(''conjunction'', JStr ''AND''), (''not'', JBool False)]) # kvs))
       \<and> (dict_get (JDict kvs) ''children1'' (JList []) = Inr (JList cs) \<longrightarrow>
            process_group (JDict kvs) =
              (if cs = [] then Inr ''TRUE''
               else and_then (collect (map compile_child cs)) (\<lambda>os.
                 let conds = present os; joined = join '' AND '' conds
                 in Inr (if 1 < length conds then ''('' @ joined @ '')'' else joined)))
            \<and> ((\<forall>c\<in>set cs. \<exists>r. compile_child c = Inr r) \<longrightarrow>
                 (\<exists>sql. process_group (JDict kvs) = Inr sql)))"
proof -
  have same: "process_group (JDict kvs) =
           process_group (JDict ((''properties'',
              JDict [(''conjunction'', JStr ''AND''), (''not'', JBool False)]) # kvs))"
    by (subst (1 2) process_group.simps) (simp add: noprops)
  have props: "dict_get (JDict kvs) ''properties'' (JDict []) = Inr (JDict [])"
    and conj: "dict_get (JDict []) ''conjunction'' (JStr ''AND'') = Inr (JStr ''AND'')"
    and neg: "dict_get (JDict []) ''not'' (JBool False) = Inr (JBool False)"
    using noprops by simp_all
  have shape: "process_group (JDict kvs) =
              (if cs = [] then Inr ''TRUE''
               else and_then (collect (map compile_child cs)) (\<lambda>os.
                 let conds = present os; joined = join '' AND '' conds
                 in Inr (if 1 < length conds then ''('' @ joined @ '')'' else joined)))"
    if kids: "dict_get (JDict kvs) ''children1'' (JList []) = Inr (JList cs)"
  proof (cases "cs = []")
    case True
    with kids have "map_of kvs ''children1'' = None \<or> map_of kvs ''children1'' = Some (JList [])"
      by (auto split: option.splits)
    from process_group_empty [OF this props conj neg] True show ?thesis by simp
  next
    case False
    with kids have "map_of kvs ''children1'' = Some (JList cs)"
      by (auto split: option.splits)
    from process_group_children [OF this False props conj neg] False show ?thesis
      by (simp add: finish_group_def py_str_def Let_def)
  qed
  have ok: "\<exists>sql. process_group (JDict kvs) = Inr sql"
    if kids: "dict_get (JDict kvs) ''children1'' (JList []) = Inr (JList cs)"
      and all: "\<forall>c\<in>set cs. \<exists>r. compile_child c = Inr r"
  proof -
    from collect_map_ok [OF all] obtain os where "collect (map compile_child cs) = Inr os" ..
    with shape [OF kids] show ?thesis by (simp add: Let_def)
  qed
  from same shape ok show ?thesis by blast
qed

theorem group_without_properties_witness:
  "process_group (JDict [(''type'', JStr ''group''),
      (''children1'', JList [
         JDict [(''type'', JStr ''rule''), (''properties'',
            JDict [(''field'', JStr ''a''), (''operator'', JStr ''is_null'')])],
         JDict [(''type'', JStr ''rule''), (''properties'',
            JDict [(''field'', JStr ''b''), (''operator'', JStr ''is_empty'')])]])])
   = Inr (''(a IS NULL AND b = '' @ [CHR 0x27, CHR 0x27] @ '')'')"
  using group_without_properties [of
      "[(''type'', JStr ''group''),
      (''children1'', JList [
         JDict [(''type'', JStr ''rule''), (''properties'',
            JDict [(''field'', JStr ''a''), (''operator'', JStr ''is_null'')])],
         JDict [(''type'', JStr ''rule''), (''properties'',
            JDict [(''field'', JStr ''b''), (''operator'', JStr ''is_empty'')])]])]"
      "[JDict [(''type'', JStr ''rule''), (''properties'',
            JDict [(''field'', JStr ''a''), (''operator'', JStr ''is_null'')])],
         JDict [(''type'', JStr ''rule''), (''properties'',
            JDict [(''field'', JStr ''b''), (''operator'', JStr ''is_empty'')])]]",
      THEN conjunct2]
  by (simp add: compile_child_def process_rule_def op_in_def OPERATOR_MAPPING_def py_str_def)

text \<open>The claim as first stated fails: the missing key raises nothing, but compilation
  need not succeed. Here a child raises an IndexError (\<^verbatim>\<open>value[0]\<close> on line 160), and a
  \<^verbatim>\<open>children1\<close> that is a number cannot be iterated.\<close>

theorem group_without_properties_counterexample:
  "process_group (JDict [(''type'', JStr ''group''),
      (''children1'', JList [
         JDict [(''type'', JStr ''rule''), (''properties'',
            JDict [(''field'', JStr ''a''), (''operator'', JStr ''equal''),
                   (''value'', JList [])])]])])
     = Inl IndexError
   \<and> process_group (JDict [(''type'', JStr ''group''), (''children1'', JInt 5)])
     = Inl TypeError"
  by (simp add: process_group.simps process_rule_def op_in_def)

end
